theory Spec2Isabelle
  imports Complex_Main "HOL-Library.Word"
begin

section \<open>The password-reset handlers of controllers/user.ts\<close>

text \<open>
  The three handlers \<open>forgot\<close> (POST /forgot), \<open>getReset\<close> (GET /reset/:token) and
  \<open>postReset\<close> (POST /reset/:token) are embedded as functions from the request, the
  environment of the request and the stored user records to the stored records afterwards
  and the trace of every call the handler makes on a collaborator, in the order of the
  source. Each collaborator's answer (an error or a value) is a field of the environment.
\<close>

subsection \<open>Data\<close>

text \<open>The fields of a user node that the handlers read or write.\<close>

record user =
  email :: string
  password :: string
  passwordResetToken :: "string option"
  passwordResetExpires :: "int option"

text \<open>A JavaScript \<open>Error\<close> with its message; the exceptions a handler can raise itself.\<close>

datatype error = Error (message: string)

datatype exn =
    TypeError \<comment> \<open>a property of \<open>null\<close> or \<open>undefined\<close> is read or written\<close>
  | HeadersSent \<comment> \<open>\<open>res.send\<close> after the response has been sent\<close>
  | CallbackAlreadyCalled \<comment> \<open>a waterfall task calls its \<open>done\<close> a second time\<close>

record verror =
  param :: string
  msg :: string
  val :: string

record mail =
  mail_to :: string
  mail_from :: string
  mail_subject :: string
  mail_text :: string

datatype query = ByEmail string | ByResetToken string

datatype body = Text string | Errors "verror list"

datatype event =
    RandomBytes nat \<comment> \<open>\<open>crypto.randomBytes(n, ..)\<close>\<close>
  | FindOne query \<comment> \<open>\<open>User.findOne(..)\<close>\<close>
  | Save nat user \<comment> \<open>\<open>user.save(..)\<close> of the node at this position\<close>
  | LogIn user \<comment> \<open>\<open>req.logIn(user, ..)\<close>\<close>
  | SendMail mail \<comment> \<open>\<open>transporter.sendMail(..)\<close>\<close>
  | Send nat body \<comment> \<open>\<open>res.status(n).send(..)\<close>\<close>
  | Next error \<comment> \<open>\<open>next(err)\<close>\<close>
  | Throw exn \<comment> \<open>an exception leaves the running callback\<close>

record request =
  authenticated :: bool \<comment> \<open>\<open>req.isAuthenticated()\<close>\<close>
  param_token :: string \<comment> \<open>\<open>req.params.token\<close>\<close>
  body_email :: string
  body_password :: string
  body_confirmPassword :: string
  host :: string \<comment> \<open>\<open>req.headers.host\<close>\<close>

text \<open>
  What the world answers during one request: the clock, the validator library's
  \<open>isEmail\<close> and \<open>normalizeEmail\<close>, the random source, and the error (if any) with which
  the store, the session and the mail transport call back.
\<close>

record env =
  now :: int \<comment> \<open>\<open>Date.now()\<close>, milliseconds\<close>
  isEmail :: "string \<Rightarrow> bool"
  normalizeEmail :: "string \<Rightarrow> string"
  entropy :: "error + (nat \<Rightarrow> 8 word)"
  findErr :: "error option"
  saveErr :: "error option"
  loginErr :: "error option"
  mailErr :: "error option"

record outcome =
  db :: "user list"
  trace :: "event list"

subsection \<open>The user store\<close>

fun matches :: "query \<Rightarrow> user \<Rightarrow> bool" where
  "matches (ByEmail e) u = (email u = e)"
| "matches (ByResetToken t) u = (passwordResetToken u = Some t)"

text \<open>
  Modelled from the spec: \<open>User.findOne\<close> of models/User, which is not among the sources.
  The spec's UserDirectory is a lookup of user records by email or by reset token; the
  store is the list of the records, a record is known by its position, and the lookup
  answers the first record with the given field value, or nothing.
\<close>

fun findOne :: "(user \<Rightarrow> bool) \<Rightarrow> user list \<Rightarrow> (nat \<times> user) option" where
  "findOne P [] = None"
| "findOne P (u # us) =
     (if P u then Some (0, u) else map_option (\<lambda>(i, v). (Suc i, v)) (findOne P us))"

text \<open>
  Modelled from the spec: \<open>user.save\<close> of models/User, which is not among the sources.
  A save that calls back without error has written the node, as the handler holds it, over
  the record at the node's position; a save that calls back with an error has written
  nothing (the spec: a storage failure leaves no partial state change).
\<close>

definition save :: "nat \<Rightarrow> user \<Rightarrow> user list \<Rightarrow> user list" where
  "save i u s = s[i := u]"

subsection \<open>Coercion of a string to a number, and \<open><\<close> against the clock\<close>

text \<open>
  \<open>user.passwordResetToken < Date.now()\<close> compares a string (or \<open>undefined\<close>) with a
  number: the string is converted by the grammar of StringNumericLiteral (white space
  around a decimal literal with optional sign, fraction and exponent, or \<open>Infinity\<close>, or
  an unsigned literal in base 16, 8 or 2; the empty string is 0), anything outside the
  grammar is \<open>NaN\<close>, \<open>undefined\<close> is \<open>NaN\<close>, and a comparison with \<open>NaN\<close> is false.
  The value of a literal is kept exact here (a rational; its rounding to a double is not
  modelled), and white space is the ASCII white space. The theorems below take the answer
  of the comparison by cases and do not depend on the value of a numeric literal; the
  token of the examples contains a letter and is \<open>NaN\<close>.
\<close>

datatype jsnum = NaN | Finite rat | PosInfinity | NegInfinity

definition isStrWhiteSpaceChar :: "char \<Rightarrow> bool" where
  "isStrWhiteSpaceChar c =
     (c \<in> set [CHR 0x09, CHR 0x0A, CHR 0x0B, CHR 0x0C, CHR 0x0D, CHR 0x20])"

definition trimString :: "string \<Rightarrow> string" where
  "trimString s =
     rev (dropWhile isStrWhiteSpaceChar (rev (dropWhile isStrWhiteSpaceChar s)))"

definition isDecimalDigit :: "char \<Rightarrow> bool" where
  "isDecimalDigit c = (c \<in> set ''0123456789'')"

definition digitsIn :: "string \<Rightarrow> string \<Rightarrow> bool" where
  "digitsIn alphabet s = (s \<noteq> [] \<and> list_all (\<lambda>c. c \<in> set alphabet) s)"

definition digitValue :: "char \<Rightarrow> nat" where
  "digitValue c =
     (if c \<in> set ''0123456789'' then of_char c - 48
      else if c \<in> set ''abcdef'' then of_char c - 87
      else of_char c - 55)"

definition radixValue :: "nat \<Rightarrow> string \<Rightarrow> nat" where
  "radixValue r s = foldl (\<lambda>a c. r * a + digitValue c) 0 s"

definition ExponentPart :: "string \<Rightarrow> int option" where
  "ExponentPart s =
     (case s of
        [] \<Rightarrow> Some 0
      | c # t \<Rightarrow>
          if c = CHR ''e'' \<or> c = CHR ''E'' then
            (case t of
               [] \<Rightarrow> None
             | d # ds \<Rightarrow>
                 if d = CHR ''+'' then
                   (if digitsIn ''0123456789'' ds then Some (int (radixValue 10 ds)) else None)
                 else if d = CHR ''-'' then
                   (if digitsIn ''0123456789'' ds then Some (- int (radixValue 10 ds)) else None)
                 else if digitsIn ''0123456789'' t then Some (int (radixValue 10 t))
                 else None)
          else None)"

definition StrUnsignedDecimalLiteral :: "string \<Rightarrow> jsnum" where
  "StrUnsignedDecimalLiteral s =
     (if s = ''Infinity'' then PosInfinity
      else
        let ip = takeWhile isDecimalDigit s;
            r1 = dropWhile isDecimalDigit s;
            fp = (case r1 of [] \<Rightarrow> [] | c # t \<Rightarrow>
                    if c = CHR ''.'' then takeWhile isDecimalDigit t else []);
            r2 = (case r1 of [] \<Rightarrow> [] | c # t \<Rightarrow>
                    if c = CHR ''.'' then dropWhile isDecimalDigit t else r1)
        in if ip = [] \<and> fp = [] then NaN
           else (case ExponentPart r2 of
                   None \<Rightarrow> NaN
                 | Some e \<Rightarrow>
                     Finite ((of_nat (radixValue 10 ip)
                                + of_nat (radixValue 10 fp) / 10 ^ length fp)
                             * (if 0 \<le> e then 10 ^ nat e else 1 / 10 ^ nat (- e)))))"

definition negate :: "jsnum \<Rightarrow> jsnum" where
  "negate x =
     (case x of NaN \<Rightarrow> NaN | Finite q \<Rightarrow> Finite (- q)
      | PosInfinity \<Rightarrow> NegInfinity | NegInfinity \<Rightarrow> PosInfinity)"

definition StrDecimalLiteral :: "string \<Rightarrow> jsnum" where
  "StrDecimalLiteral s =
     (case s of
        [] \<Rightarrow> NaN
      | c # t \<Rightarrow>
          if c = CHR ''+'' then StrUnsignedDecimalLiteral t
          else if c = CHR ''-'' then negate (StrUnsignedDecimalLiteral t)
          else StrUnsignedDecimalLiteral s)"

definition radixLiteral :: "string \<Rightarrow> jsnum option" where
  "radixLiteral s =
     (case s of
        z # x # ds \<Rightarrow>
          if z \<noteq> CHR ''0'' then None
          else if (x = CHR ''x'' \<or> x = CHR ''X'') \<and> digitsIn ''0123456789abcdefABCDEF'' ds
            then Some (Finite (of_nat (radixValue 16 ds)))
          else if (x = CHR ''o'' \<or> x = CHR ''O'') \<and> digitsIn ''01234567'' ds
            then Some (Finite (of_nat (radixValue 8 ds)))
          else if (x = CHR ''b'' \<or> x = CHR ''B'') \<and> digitsIn ''01'' ds
            then Some (Finite (of_nat (radixValue 2 ds)))
          else None
      | _ \<Rightarrow> None)"

definition StringToNumber :: "string \<Rightarrow> jsnum" where
  "StringToNumber s =
     (let t = trimString s in
      if t = [] then Finite 0
      else (case radixLiteral t of Some n \<Rightarrow> n | None \<Rightarrow> StrDecimalLiteral t))"

text \<open>\<open>v < n\<close> for a string or \<open>undefined\<close> \<open>v\<close> and the clock's \<open>n\<close>.\<close>

definition js_less :: "string option \<Rightarrow> int \<Rightarrow> bool" where
  "js_less v n =
     (case v of
        None \<Rightarrow> False
      | Some s \<Rightarrow>
          (case StringToNumber s of
             NaN \<Rightarrow> False
           | Finite q \<Rightarrow> q < of_int n
           | PosInfinity \<Rightarrow> False
           | NegInfinity \<Rightarrow> True))"

subsection \<open>The random token\<close>

text \<open>
  \<open>crypto.randomBytes(n, cb)\<close> calls back with an error, or with a buffer of \<open>n\<close> bytes
  of the source; \<open>buf.toString("hex")\<close> writes two lower-case digits for each byte.
\<close>

definition randomBytes :: "nat \<Rightarrow> error + (nat \<Rightarrow> 8 word) \<Rightarrow> error + 8 word list" where
  "randomBytes n src = (case src of Inl e \<Rightarrow> Inl e | Inr f \<Rightarrow> Inr (map f [0..<n]))"

definition hexDigit :: "nat \<Rightarrow> char" where
  "hexDigit n = ''0123456789abcdef'' ! n"

definition toHex :: "8 word list \<Rightarrow> string" where
  "toHex buf = concat (map (\<lambda>w. [hexDigit (unat w div 16), hexDigit (unat w mod 16)]) buf)"

subsection \<open>The response\<close>

fun isSend :: "event \<Rightarrow> bool" where
  "isSend (Send c b) = True"
| "isSend e = False"

fun isThrow :: "event \<Rightarrow> bool" where
  "isThrow (Throw x) = True"
| "isThrow e = False"

definition headersSent :: "event list \<Rightarrow> bool" where
  "headersSent tr = list_ex isSend tr"

definition thrown :: "event list \<Rightarrow> bool" where
  "thrown tr = (tr \<noteq> [] \<and> isThrow (last tr))"

text \<open>
  \<open>res.status(c).send(b)\<close>, then the rest \<open>k\<close> of the callback: a second send on the
  same response raises, and the rest of the callback is not run.
\<close>

definition res_send :: "nat \<Rightarrow> body \<Rightarrow> event list \<Rightarrow> (event list \<Rightarrow> event list) \<Rightarrow> event list" where
  "res_send c b tr k = (if headersSent tr then tr @ [Throw HeadersSent] else k (tr @ [Send c b]))"

text \<open>The response that reaches the client: the first one sent.\<close>

fun response :: "event list \<Rightarrow> (nat \<times> body) option" where
  "response [] = None"
| "response (Send c b # tr) = Some (c, b)"
| "response (e # tr) = response tr"

definition nl :: string where
  "nl = [CHR 0x0A]"

subsection \<open>The waterfall\<close>

text \<open>
  \<open>async.waterfall(tasks, final)\<close> is written out in each handler: the tasks run in
  order, each receiving what the one before passed to its \<open>done\<close>; a \<open>done\<close> called with
  an error, or called by the last task, calls \<open>final\<close> at once, from within the running
  callback; a task that calls its \<open>done\<close> a second time raises. A statement after a
  call of \<open>done\<close> that does not return is run when that call comes back. An exception
  ends the running callback, and nothing after it is run.
\<close>

subsection \<open>GET /reset/:token\<close>

definition getReset :: "env \<Rightarrow> request \<Rightarrow> user list \<Rightarrow> outcome" where
  "getReset env req s =
     (if authenticated req then
        \<lparr>db = s, trace = res_send 401 (Text ''You are already logged in.'') [] id\<rparr>
      else
        let tr = [FindOne (ByResetToken (param_token req))] in
        (case findErr env of
           Some e \<Rightarrow> \<lparr>db = s, trace = tr @ [Next e]\<rparr>
         | None \<Rightarrow>
             (case findOne (matches (ByResetToken (param_token req))) s of
                None \<Rightarrow>
                  \<lparr>db = s, trace =
                     res_send 403 (Text ''Password reset token is invalid or has expired.'') tr id\<rparr>
              | Some (i, u) \<Rightarrow>
                  if js_less (passwordResetToken u) (now env) then
                    \<lparr>db = s, trace =
                       res_send 403 (Text ''Password reset token is invalid or has expired.'') tr id\<rparr>
                  else
                    \<lparr>db = s, trace =
                       res_send 200 (Text ''Password reset token is valid.'') tr id\<rparr>)))"

subsection \<open>POST /reset/:token\<close>

definition postReset_validate :: "request \<Rightarrow> verror list" where
  "postReset_validate req =
     (if 4 \<le> length (body_password req) then []
      else [\<lparr>param = ''password'', msg = ''Password must be at least 4 characters long.'',
             val = body_password req\<rparr>])
     @ (if body_confirmPassword req = body_password req then []
        else [\<lparr>param = ''confirmPassword'', msg = ''Passwords must match.'',
               val = body_confirmPassword req\<rparr>])"

text \<open>The last callback of the waterfall (lines 254 to 257).\<close>

definition postReset_final :: "error option \<Rightarrow> event list \<Rightarrow> event list" where
  "postReset_final err tr =
     (case err of
        Some e \<Rightarrow> tr @ [Next e]
      | None \<Rightarrow> res_send 500 (Text ''Something went terribly wrong'') tr id)"

text \<open>The second task; its \<open>user\<close> is \<open>undefined\<close> when the lookup called back with an error.\<close>

definition sendResetPasswordEmail :: "env \<Rightarrow> user option \<Rightarrow> event list \<Rightarrow> event list" where
  "sendResetPasswordEmail env uo tr =
     (case uo of
        None \<Rightarrow> tr @ [Throw TypeError]
      | Some u \<Rightarrow>
          let m = \<lparr>mail_to = email u, mail_from = ''service@cooper.com'',
                   mail_subject = ''Your password has been changed'',
                   mail_text = ''Hello,'' @ nl @ nl
                     @ ''This is a confirmation that the password for your account ''
                     @ email u @ '' has just been changed.'' @ nl\<rparr>
          in res_send 200 (Text ''Success! Your password has been changed.'')
               (tr @ [SendMail m]) (postReset_final (mailErr env)))"

text \<open>
  The first task, \<open>resetPassword\<close>, runs in two callbacks with the store in between: the
  callback of \<open>findOne\<close>, which ends by calling \<open>user.save\<close> on the node it was given, and
  the callback of \<open>save\<close>. \<open>Saving i u called tr\<close> is the state between the two: the node
  \<open>u\<close> at position \<open>i\<close> is to be written, \<open>called\<close> tells whether \<open>done\<close> has been called
  already, \<open>tr\<close> is the trace so far.
\<close>

datatype pending = Finished "event list" | Saving nat user bool "event list"

definition postReset_lookup :: "env \<Rightarrow> request \<Rightarrow> user list \<Rightarrow> pending" where
  "postReset_lookup env req s =
     (let errors = postReset_validate req in
      if errors \<noteq> [] then Finished (res_send 400 (Errors errors) [] id)
      else
        let tr = [FindOne (ByResetToken (param_token req))] in
        (case findErr env of
           Some e \<Rightarrow> Finished (sendResetPasswordEmail env None (tr @ [Next e]))
         | None \<Rightarrow>
             (case findOne (matches (ByResetToken (param_token req))) s of
                None \<Rightarrow>
                  let tr1 = postReset_final (Some (Error ''User not found'')) tr in
                  Finished (if thrown tr1 then tr1 else tr1 @ [Throw TypeError])
              | Some (i, u) \<Rightarrow>
                  let called = js_less (passwordResetToken u) (now env);
                      tr1 = (if called then postReset_final (Some (Error ''User not found'')) tr
                             else tr);
                      u' = u\<lparr>password := body_password req,
                              passwordResetToken := None,
                              passwordResetExpires := None\<rparr>
                  in if thrown tr1 then Finished tr1 else Saving i u' called (tr1 @ [Save i u']))))"

definition postReset_save :: "env \<Rightarrow> nat \<Rightarrow> user \<Rightarrow> bool \<Rightarrow> event list \<Rightarrow> user list \<Rightarrow> outcome" where
  "postReset_save env i u called tr s =
     (case saveErr env of
        Some e \<Rightarrow> \<lparr>db = s, trace = tr @ [Next e]\<rparr>
      | None \<Rightarrow>
          \<lparr>db = save i u s,
           trace =
             (let tr1 = tr @ [LogIn u] in
              if called then tr1 @ [Throw CallbackAlreadyCalled]
              else (case loginErr env of
                      Some e \<Rightarrow> postReset_final (Some e) tr1
                    | None \<Rightarrow> sendResetPasswordEmail env (Some u) tr1))\<rparr>)"

text \<open>What is left of a request after its lookup, on the store as it is by then.\<close>

definition postReset_resume :: "env \<Rightarrow> pending \<Rightarrow> user list \<Rightarrow> outcome" where
  "postReset_resume env p s =
     (case p of
        Finished tr \<Rightarrow> \<lparr>db = s, trace = tr\<rparr>
      | Saving i u called tr \<Rightarrow> postReset_save env i u called tr s)"

text \<open>One request handled alone: nothing touches the store between its two callbacks.\<close>

definition postReset :: "env \<Rightarrow> request \<Rightarrow> user list \<Rightarrow> outcome" where
  "postReset env req s = postReset_resume env (postReset_lookup env req s) s"

subsection \<open>POST /forgot\<close>

definition ack :: "string \<Rightarrow> string" where
  "ack addr = ''An e-mail has been sent to '' @ addr @ '' with further instructions.''"

text \<open>The last callback of the waterfall (lines 314 to 322).\<close>

definition forgot_final :: "string \<Rightarrow> error option \<Rightarrow> event list \<Rightarrow> event list" where
  "forgot_final addr err tr =
     (case err of
        Some e \<Rightarrow>
          if message e = ''User not found'' then res_send 200 (Text (ack addr)) tr id
          else tr @ [Next e]
      | None \<Rightarrow> res_send 500 (Text ''Something went terribly wrong'') tr id)"

definition sendForgotPasswordEmail ::
  "env \<Rightarrow> string \<Rightarrow> string \<Rightarrow> string \<Rightarrow> user \<Rightarrow> event list \<Rightarrow> event list" where
  "sendForgotPasswordEmail env addr hst token u tr =
     (let indent = nl @ replicate 10 (CHR 0x20);
          m = \<lparr>mail_to = email u, mail_from = ''service@cooper.com'',
               mail_subject = ''Reset your password on Cooper'',
               mail_text =
                 ''You are receiving this email because you (or someone else) have requested the reset of the password for your account.''
                 @ nl @ nl @ indent
                 @ ''Please click on the following link, or paste this into your browser to complete the process:''
                 @ nl @ nl @ indent
                 @ ''http://'' @ hst @ ''/reset/'' @ token @ nl @ nl @ indent
                 @ ''If you did not request this, please ignore this email and your password will remain unchanged.''
                 @ nl\<rparr>
      in res_send 200 (Text (ack (email u))) (tr @ [SendMail m]) (forgot_final addr (mailErr env)))"

definition setRandomToken ::
  "env \<Rightarrow> string \<Rightarrow> string \<Rightarrow> string \<Rightarrow> event list \<Rightarrow> user list \<Rightarrow> outcome" where
  "setRandomToken env addr hst token tr s =
     (let tr1 = tr @ [FindOne (ByEmail addr)] in
      case findErr env of
        Some e \<Rightarrow> \<lparr>db = s, trace = forgot_final addr (Some e) tr1\<rparr>
      | None \<Rightarrow>
          (case findOne (matches (ByEmail addr)) s of
             None \<Rightarrow>
               let tr2 = forgot_final addr (Some (Error ''User not found'')) tr1 in
               \<lparr>db = s, trace = (if thrown tr2 then tr2 else tr2 @ [Throw TypeError])\<rparr>
           | Some (i, u) \<Rightarrow>
               let u' = u\<lparr>passwordResetToken := Some token,
                          passwordResetExpires := Some (now env + 3600000)\<rparr>;
                   tr2 = tr1 @ [Save i u']
               in (case saveErr env of
                     Some e \<Rightarrow> \<lparr>db = s, trace = forgot_final addr (Some e) tr2\<rparr>
                   | None \<Rightarrow>
                       \<lparr>db = save i u' s,
                        trace = sendForgotPasswordEmail env addr hst token u' tr2\<rparr>)))"

definition createRandomToken :: "env \<Rightarrow> string \<Rightarrow> string \<Rightarrow> user list \<Rightarrow> outcome" where
  "createRandomToken env addr hst s =
     (case randomBytes 16 (entropy env) of
        Inl e \<Rightarrow> \<lparr>db = s, trace = [RandomBytes 16, Throw TypeError]\<rparr>
      | Inr buf \<Rightarrow> setRandomToken env addr hst (toHex buf) [RandomBytes 16] s)"

definition forgot :: "env \<Rightarrow> request \<Rightarrow> user list \<Rightarrow> outcome" where
  "forgot env req s =
     (let errors = (if isEmail env (body_email req) then []
                    else [\<lparr>param = ''email'', msg = ''Please enter a valid email address.'',
                           val = body_email req\<rparr>]);
          addr = normalizeEmail env (body_email req)
      in if errors \<noteq> [] then \<lparr>db = s, trace = res_send 400 (Errors errors) [] id\<rparr>
         else createRandomToken env addr (host req) s)"

subsection \<open>Reachable stores and the pairing of the reset fields\<close>

definition resetFieldsPaired :: "user \<Rightarrow> bool" where
  "resetFieldsPaired u = ((passwordResetToken u = None) = (passwordResetExpires u = None))"

definition noPendingReset :: "user \<Rightarrow> bool" where
  "noPendingReset u = (passwordResetToken u = None \<and> passwordResetExpires u = None)"

text \<open>
  The stores the three operations can produce, from a store in which no reset is pending
  (\<open>signup\<close> creates a user from an email and a password only).
\<close>

inductive reachable :: "user list \<Rightarrow> bool" where
  initial: "list_all noPendingReset s \<Longrightarrow> reachable s"
| after_forgot: "reachable s \<Longrightarrow> reachable (db (forgot env req s))"
| after_getReset: "reachable s \<Longrightarrow> reachable (db (getReset env req s))"
| after_postReset: "reachable s \<Longrightarrow> reachable (db (postReset env req s))"

subsection \<open>Example data\<close>

definition example_env :: "int \<Rightarrow> env" where
  "example_env t =
     \<lparr>now = t, isEmail = (\<lambda>a. CHR ''@'' \<in> set a), normalizeEmail = (\<lambda>a. a),
      entropy = Inr (\<lambda>i. 0xAB), findErr = None, saveErr = None, loginErr = None,
      mailErr = None\<rparr>"

definition alice :: user where
  "alice = \<lparr>email = ''alice@example.com'', password = ''secret'',
             passwordResetToken = None, passwordResetExpires = None\<rparr>"

definition bob :: user where
  "bob = \<lparr>email = ''bob@example.com'', password = ''12345'',
           passwordResetToken = None, passwordResetExpires = None\<rparr>"

definition example_token :: string where
  "example_token = ''abababababababababababababababab''"

definition example_request :: "string \<Rightarrow> string \<Rightarrow> request" where
  "example_request addr pw =
     \<lparr>authenticated = False, param_token = example_token, body_email = addr,
      body_password = pw, body_confirmPassword = pw, host = ''localhost:3000''\<rparr>"

definition success :: event where
  "success = Send 200 (Text ''Success! Your password has been changed.'')"

fun isSendMail :: "event \<Rightarrow> bool" where
  "isSendMail (SendMail m) = True"
| "isSendMail e = False"

text \<open>
  A store made by the handlers themselves: \<open>pending_store\<close> is the store after one
  request for a reset.
\<close>


definition pending_store :: "user list" where
  "pending_store =
     db (forgot (example_env 1525132800000) (example_request ''alice@example.com'' []) [alice])"

section \<open>Lemmas on the store and on the stored records\<close>

lemma findOne_SomeD: "findOne P s = Some (i, u) \<Longrightarrow> i < length s \<and> s ! i = u \<and> P u"
  by (induction s arbitrary: i) (auto split: if_splits)

lemma findOne_None_iff: "findOne P s = None \<longleftrightarrow> (\<forall>u\<in>set s. \<not> P u)"
  by (induction s) auto

lemmas forgot_defs = forgot_def createRandomToken_def randomBytes_def setRandomToken_def
  forgot_final_def sendForgotPasswordEmail_def res_send_def headersSent_def thrown_def
  save_def Let_def

lemmas postReset_defs = postReset_def postReset_resume_def postReset_lookup_def postReset_save_def
  postReset_final_def sendResetPasswordEmail_def res_send_def headersSent_def thrown_def
  save_def Let_def

lemmas getReset_defs = getReset_def res_send_def headersSent_def Let_def

lemmas example_defs = example_env_def example_request_def alice_def bob_def

lemma example_token_hex: "toHex (map (\<lambda>i. 0xAB) [0..<16]) = example_token"
  by code_simp

lemma list_all_update: "list_all P s \<Longrightarrow> P v \<Longrightarrow> list_all P (s[i := v])"
  by (induction s arbitrary: i) (auto split: nat.splits)

lemma db_getReset: "db (getReset env req s) = s"
  by (simp add: getReset_defs split: option.splits prod.splits)

lemma db_forgot:
  "db (forgot env req s) = s
   \<or> (\<exists>i u t. db (forgot env req s)
         = s[i := u\<lparr>passwordResetToken := Some t,
                    passwordResetExpires := Some (now env + 3600000)\<rparr>])"
  by (auto simp: forgot_defs split: option.splits sum.splits)

lemma db_postReset:
  "db (postReset env req s) = s
   \<or> (\<exists>i u. db (postReset env req s)
         = s[i := u\<lparr>password := body_password req, passwordResetToken := None,
                    passwordResetExpires := None\<rparr>])"
  by (auto simp: postReset_defs split: option.splits)

lemma paired_forgot:
  "list_all resetFieldsPaired s \<Longrightarrow> list_all resetFieldsPaired (db (forgot env req s))"
  using db_forgot [of env req s]
  by (auto simp: resetFieldsPaired_def intro!: list_all_update)

lemma paired_postReset:
  "list_all resetFieldsPaired s \<Longrightarrow> list_all resetFieldsPaired (db (postReset env req s))"
  using db_postReset [of env req s]
  by (auto simp: resetFieldsPaired_def intro!: list_all_update)

lemma noPending_paired: "list_all noPendingReset s \<Longrightarrow> list_all resetFieldsPaired s"
  by (induction s) (auto simp: noPendingReset_def resetFieldsPaired_def)

lemma reachable_paired: "reachable s \<Longrightarrow> list_all resetFieldsPaired s"
proof (induction rule: reachable.induct)
  case (initial s)
  then show ?case by (rule noPending_paired)
next
  case (after_forgot s env req)
  then show ?case by (simp add: paired_forgot)
next
  case (after_getReset s env req)
  then show ?case by (simp add: db_getReset)
next
  case (after_postReset s env req)
  then show ?case by (simp add: paired_postReset)
qed

lemma postReset_success_cases:
  assumes "success \<in> set (trace (postReset env req s))"
  shows "postReset_validate req = [] \<and> findErr env = None \<and> saveErr env = None
       \<and> loginErr env = None
       \<and> (\<exists>i u. findOne (matches (ByResetToken (param_token req))) s = Some (i, u)
              \<and> \<not> js_less (passwordResetToken u) (now env)
              \<and> db (postReset env req s)
                  = s[i := u\<lparr>password := body_password req, passwordResetToken := None,
                             passwordResetExpires := None\<rparr>])"
  using assms
  by (auto simp: postReset_defs success_def split: option.splits if_splits)

lemma postReset_no_match:
  assumes "findOne (matches (ByResetToken (param_token req))) s = None"
  shows "success \<notin> set (trace (postReset env req s))"
    and "db (postReset env req s) = s"
    and "postReset_validate req = [] \<Longrightarrow> findErr env = None \<Longrightarrow>
         trace (postReset env req s)
           = [FindOne (ByResetToken (param_token req)), Next (Error ''User not found''),
              Throw TypeError]"
  using assms
  by (auto simp: postReset_defs success_def split: option.splits if_splits)

lemma length_toHex: "length (toHex buf) = 2 * length buf"
  by (induction buf) (simp_all add: toHex_def)

lemma hexDigit_hex: "n < 16 \<Longrightarrow> hexDigit n \<in> set ''0123456789abcdef''"
proof -
  assume "n < 16"
  then have "n \<in> {0..<16}" by simp
  also have "{0..<16::nat} = set [0, 1, 2, 3, 4, 5, 6, 7, 8, 9, 10, 11, 12, 13, 14, 15]"
    by (simp add: atLeastLessThan_nat_numeral lessThan_nat_numeral lessThan_Suc atLeast0LessThan insert_commute)
  finally show ?thesis
    by (auto simp: hexDigit_def)
qed

lemma set_toHex: "set (toHex buf) \<subseteq> set ''0123456789abcdef''"
proof
  fix c
  assume "c \<in> set (toHex buf)"
  then obtain w :: "8 word"
    where c: "c = hexDigit (unat w div 16) \<or> c = hexDigit (unat w mod 16)"
    by (auto simp: toHex_def)
  have "unat w < 2 ^ 8" using unsigned_less [of w] by simp
  then have hi: "unat w div 16 < 16" by simp
  have lo: "unat w mod 16 < 16" by simp
  from c hexDigit_hex [OF hi] hexDigit_hex [OF lo]
  show "c \<in> set ''0123456789abcdef''" by blast
qed

lemma pending_store_eq:
  "pending_store = [alice\<lparr>passwordResetToken := Some example_token,
                          passwordResetExpires := Some 1525136400000\<rparr>]"
  by code_simp

lemma example_token_NaN: "StringToNumber example_token = NaN"
  by code_simp

lemma example_token_not_less: "\<not> js_less (Some example_token) n"
  by (simp add: js_less_def example_token_NaN)

lemma findOne_map:
  assumes "\<And>u. P (g u) = P u"
  shows "findOne P (map g s) = map_option (\<lambda>(i, u). (i, g u)) (findOne P s)"
  using assms by (induction s) (auto simp: option.map_comp comp_def split_def)

lemma getReset_never_reads_expiry:
  "trace (getReset env req (map (\<lambda>u. u\<lparr>passwordResetExpires := x u\<rparr>) s))
     = trace (getReset env req s)"
proof -
  have "findOne (matches (ByResetToken (param_token req)))
          (map (\<lambda>u. u\<lparr>passwordResetExpires := x u\<rparr>) s)
        = map_option (\<lambda>(i, u). (i, u\<lparr>passwordResetExpires := x u\<rparr>))
            (findOne (matches (ByResetToken (param_token req))) s)"
    by (rule findOne_map) simp
  then show ?thesis
    by (simp add: getReset_defs split: option.splits)
qed

lemma getReset_no_match:
  assumes "\<not> authenticated req" and "findErr env = None"
    and "findOne (matches (ByResetToken (param_token req))) s = None"
  shows "trace (getReset env req s)
           = [FindOne (ByResetToken (param_token req)),
              Send 403 (Text ''Password reset token is invalid or has expired.'')]"
  using assms by (simp add: getReset_defs)

section \<open>The claims\<close>

text \<open>
  C1. The verification handler never reads the expiry: its trace is the same whatever
  the stored expiries are, because line 194 compares the stored token, not the stored
  expiry, with the clock. A token issued by \<open>forgot\<close> at the time T (a string with a
  letter, which is not a number, so the comparison is false) is answered as valid 3599
  seconds after T, and as valid again 3601 seconds after T, when the stored expiry
  T + 3600000 has passed.
\<close>

theorem getReset_accepts_expired_token:
  "trace (getReset env req (map (\<lambda>u. u\<lparr>passwordResetExpires := x u\<rparr>) s))
     = trace (getReset env req s)
   \<and> pending_store = [alice\<lparr>passwordResetToken := Some example_token,
                            passwordResetExpires := Some (1525132800000 + 3600000)\<rparr>]
   \<and> trace (getReset (example_env (1525132800000 + 3599000)) (example_request [] [])
        pending_store)
      = [FindOne (ByResetToken example_token), Send 200 (Text ''Password reset token is valid.'')]
   \<and> trace (getReset (example_env (1525132800000 + 3601000)) (example_request [] [])
        pending_store)
      = [FindOne (ByResetToken example_token), Send 200 (Text ''Password reset token is valid.'')]"
proof (rule conjI)
  show "trace (getReset env req (map (\<lambda>u. u\<lparr>passwordResetExpires := x u\<rparr>) s))
          = trace (getReset env req s)"
    by (rule getReset_never_reads_expiry)
  show "pending_store = [alice\<lparr>passwordResetToken := Some example_token,
                            passwordResetExpires := Some (1525132800000 + 3600000)\<rparr>]
   \<and> trace (getReset (example_env (1525132800000 + 3599000)) (example_request [] [])
        pending_store)
      = [FindOne (ByResetToken example_token), Send 200 (Text ''Password reset token is valid.'')]
   \<and> trace (getReset (example_env (1525132800000 + 3601000)) (example_request [] [])
        pending_store)
      = [FindOne (ByResetToken example_token), Send 200 (Text ''Password reset token is valid.'')]"
    by code_simp
qed

text \<open>
  C2. A request for a reset at a valid address that no record carries, with the random
  source and the lookup answering without error: the response is the status 200 with the
  acknowledgment naming the (normalised) address, the store is left as it was, so no token
  is stored on any record, no mail is sent, and the response is the same as the one for
  any store in which the address is present and the save succeeds.
\<close>

theorem forgot_unknown_address:
  assumes "isEmail env (body_email req)"
    and "entropy env = Inr f"
    and "findErr env = None"
    and "\<forall>u\<in>set s. email u \<noteq> normalizeEmail env (body_email req)"
  shows "response (trace (forgot env req s))
           = Some (200, Text (ack (normalizeEmail env (body_email req))))
       \<and> db (forgot env req s) = s
       \<and> filter isSendMail (trace (forgot env req s)) = []
       \<and> (findOne (matches (ByEmail (normalizeEmail env (body_email req)))) s' = Some (i, u')
            \<and> saveErr env = None
          \<longrightarrow> response (trace (forgot env req s')) = response (trace (forgot env req s)))"
proof -
  let ?addr = "normalizeEmail env (body_email req)"
  have absent: "findOne (matches (ByEmail ?addr)) s = None"
    using assms(4) by (simp add: findOne_None_iff)
  have r: "response (trace (forgot env req s)) = Some (200, Text (ack ?addr))"
    using assms(1-3) absent by (simp add: forgot_defs)
  have d: "db (forgot env req s) = s"
    using assms(1-3) absent by (simp add: forgot_defs)
  have m: "filter isSendMail (trace (forgot env req s)) = []"
    using assms(1-3) absent by (simp add: forgot_defs)
  have p: "response (trace (forgot env req s')) = Some (200, Text (ack ?addr))"
    if "findOne (matches (ByEmail ?addr)) s' = Some (i, u')" and "saveErr env = None"
  proof -
    from findOne_SomeD [OF that(1)] have "email u' = ?addr" by simp
    then show ?thesis
      using assms(1-3) that by (simp add: forgot_defs split: option.splits)
  qed
  from r d m p show ?thesis by simp
qed

theorem forgot_unknown_address_witness:
  "isEmail (example_env 1525132800000) ''carol@example.com''
   \<and> findOne (matches (ByEmail ''carol@example.com'')) [alice, bob] = None
   \<and> findOne (matches (ByEmail ''carol@example.com'')) [alice, bob\<lparr>email := ''carol@example.com''\<rparr>]
       = Some (1, bob\<lparr>email := ''carol@example.com''\<rparr>)
   \<and> response (trace (forgot (example_env 1525132800000)
                        (example_request ''carol@example.com'' []) [alice, bob]))
       = Some (200, Text ''An e-mail has been sent to carol@example.com with further instructions.'')
   \<and> db (forgot (example_env 1525132800000) (example_request ''carol@example.com'' [])
            [alice, bob]) = [alice, bob]
   \<and> response (trace (forgot (example_env 1525132800000)
                        (example_request ''carol@example.com'' [])
                        [alice, bob\<lparr>email := ''carol@example.com''\<rparr>]))
       = Some (200, Text ''An e-mail has been sent to carol@example.com with further instructions.'')"
proof -
  let ?env = "example_env 1525132800000"
  let ?req = "example_request ''carol@example.com'' []"
  have h1: "isEmail ?env (body_email ?req)" by (simp add: example_defs)
  have h2: "entropy ?env = Inr (\<lambda>i. 0xAB)" by (simp add: example_defs)
  have h3: "findErr ?env = None" by (simp add: example_defs)
  have h4: "\<forall>u\<in>set [alice, bob]. email u \<noteq> normalizeEmail ?env (body_email ?req)"
    by (simp add: example_defs)
  have h5: "findOne (matches (ByEmail (normalizeEmail ?env (body_email ?req))))
              [alice, bob\<lparr>email := ''carol@example.com''\<rparr>]
            = Some (1, bob\<lparr>email := ''carol@example.com''\<rparr>)"
    by (simp add: example_defs)
  have h6: "saveErr ?env = None" by (simp add: example_defs)
  from forgot_unknown_address [OF h1 h2 h3 h4,
      of "[alice, bob\<lparr>email := ''carol@example.com''\<rparr>]" 1 "bob\<lparr>email := ''carol@example.com''\<rparr>"]
    h5 h6
  show ?thesis by (simp add: example_defs ack_def)
qed

text \<open>
  C3. Two redemptions presenting the same token, which a record holds with an expiry
  still in the future at both requests, and each of which succeeds when it is handled
  alone on the store. The lookup and the save of a redemption are two operations on the
  store (\<open>findOne\<close>, then \<open>save\<close>), not one read-modify-write: when the lookup of the
  second redemption runs on the store as it was before the save of the first, both
  redemptions succeed, and the record ends with the password of the second.
\<close>

theorem postReset_both_succeed:
  assumes "success \<in> set (trace (postReset e1 r1 s))"
    and "success \<in> set (trace (postReset e2 r2 s))"
    and "param_token r1 = t" and "param_token r2 = t"
    and "findOne (matches (ByResetToken t)) s = Some (i, u)"
    and "passwordResetExpires u = Some x" and "now e1 < x" and "now e2 < x"
  shows "success \<in> set (trace (postReset_resume e1 (postReset_lookup e1 r1 s) s))
       \<and> success \<in> set (trace (postReset_resume e2 (postReset_lookup e2 r2 s)
                 (db (postReset_resume e1 (postReset_lookup e1 r1 s) s))))
       \<and> password (db (postReset_resume e2 (postReset_lookup e2 r2 s)
                 (db (postReset_resume e1 (postReset_lookup e1 r1 s) s))) ! i)
           = body_password r2"
proof -
  let ?s1 = "db (postReset_resume e1 (postReset_lookup e1 r1 s) s)"
  have a: "success \<in> set (trace (postReset_resume e1 (postReset_lookup e1 r1 s) s))"
    using assms(1) by (simp add: postReset_def)
  from postReset_success_cases [OF assms(2)] assms(4,5)
  have ok: "postReset_validate r2 = []" "findErr e2 = None" "saveErr e2 = None"
      "loginErr e2 = None" "\<not> js_less (passwordResetToken u) (now e2)"
    by auto
  from postReset_success_cases [OF assms(1)] assms(3,5)
  have d1: "?s1 = s[i := u\<lparr>password := body_password r1, passwordResetToken := None,
                           passwordResetExpires := None\<rparr>]"
    by (auto simp: postReset_def)
  from findOne_SomeD [OF assms(5)] have i: "i < length s" by simp
  have b: "success \<in> set (trace (postReset_resume e2 (postReset_lookup e2 r2 s) ?s1))"
    using ok assms(4,5)
    by (simp add: postReset_resume_def postReset_lookup_def postReset_save_def
          postReset_final_def sendResetPasswordEmail_def res_send_def headersSent_def
          thrown_def save_def Let_def success_def split: option.splits)
  have c: "password (db (postReset_resume e2 (postReset_lookup e2 r2 s) ?s1) ! i)
             = body_password r2"
    unfolding d1 using ok assms(4,5) i
    by (simp add: postReset_resume_def postReset_lookup_def postReset_save_def
          postReset_final_def thrown_def save_def Let_def split: option.splits)
  from a b c show ?thesis by simp
qed

theorem postReset_both_succeed_witness:
  "findOne (matches (ByResetToken example_token)) pending_store = Some (0, pending_store ! 0)
   \<and> passwordResetExpires (pending_store ! 0) = Some 1525136400000
   \<and> success \<in> set (trace (postReset (example_env 1525132900000)
        (example_request [] ''first'') pending_store))
   \<and> success \<in> set (trace (postReset (example_env 1525133000000)
        (example_request [] ''second'') pending_store))
   \<and> success \<in> set (trace (postReset_resume (example_env 1525133000000)
        (postReset_lookup (example_env 1525133000000) (example_request [] ''second'')
           pending_store)
        (db (postReset_resume (example_env 1525132900000)
           (postReset_lookup (example_env 1525132900000) (example_request [] ''first'')
              pending_store) pending_store))))
   \<and> password (db (postReset_resume (example_env 1525133000000)
        (postReset_lookup (example_env 1525133000000) (example_request [] ''second'')
           pending_store)
        (db (postReset_resume (example_env 1525132900000)
           (postReset_lookup (example_env 1525132900000) (example_request [] ''first'')
              pending_store) pending_store))) ! 0) = ''second''"
proof -
  let ?e1 = "example_env 1525132900000" and ?e2 = "example_env 1525133000000"
  let ?r1 = "example_request [] ''first''" and ?r2 = "example_request [] ''second''"
  have s1: "success \<in> set (trace (postReset ?e1 ?r1 pending_store))"
    by (simp add: pending_store_eq postReset_defs postReset_validate_def example_defs
          example_token_not_less success_def)
  have s2: "success \<in> set (trace (postReset ?e2 ?r2 pending_store))"
    by (simp add: pending_store_eq postReset_defs postReset_validate_def example_defs
          example_token_not_less success_def)
  have t1: "param_token ?r1 = example_token" and t2: "param_token ?r2 = example_token"
    by (simp_all add: example_defs)
  have f: "findOne (matches (ByResetToken example_token)) pending_store
           = Some (0, pending_store ! 0)"
    by (simp add: pending_store_eq)
  have x: "passwordResetExpires (pending_store ! 0) = Some 1525136400000"
    by (simp add: pending_store_eq)
  have n1: "now ?e1 < 1525136400000" and n2: "now ?e2 < 1525136400000"
    by (simp_all add: example_defs)
  from postReset_both_succeed [OF s1 s2 t1 t2 f x n1 n2] f x s1 s2
  show ?thesis by (simp add: example_defs)
qed


text \<open>
  C3, the counterexample: both lookups run on \<open>pending_store\<close>, then both saves; both
  redemptions of the one token answer with the success message.
\<close>

theorem postReset_interleaved_counterexample:
  "success \<in> set (trace (postReset_resume (example_env 1525132900000)
        (postReset_lookup (example_env 1525132900000) (example_request [] ''first'')
           pending_store) pending_store))
   \<and> success \<in> set (trace (postReset_resume (example_env 1525132900000)
        (postReset_lookup (example_env 1525132900000) (example_request [] ''second'')
           pending_store)
        (db (postReset_resume (example_env 1525132900000)
           (postReset_lookup (example_env 1525132900000) (example_request [] ''first'')
              pending_store) pending_store))))"
  by code_simp

text \<open>
  C4. After a redemption that answered with the success message, the record that the
  lookup found has neither reset token nor reset expiry. A later redemption presenting
  the same token, when no record holds it any more (the passwords valid, the lookup
  without error), changes nothing in the store, but it does not answer with the status
  403 as \<open>getReset\<close> does on the same store: line 222 passes the error "User not found"
  to \<open>next\<close> and does not return, so that line 224 writes to the absent user and a
  TypeError is raised.
\<close>

theorem postReset_second_call_raises:
  assumes "success \<in> set (trace (postReset env req s))"
  shows "\<exists>i u. findOne (matches (ByResetToken (param_token req))) s = Some (i, u)
           \<and> passwordResetToken (db (postReset env req s) ! i) = None
           \<and> passwordResetExpires (db (postReset env req s) ! i) = None
           \<and> (findOne (matches (ByResetToken (param_token req))) (db (postReset env req s))
                 = None
                \<and> param_token req' = param_token req \<and> postReset_validate req' = []
                \<and> findErr env' = None
              \<longrightarrow> postReset env' req' (db (postReset env req s))
                    = \<lparr>db = db (postReset env req s),
                       trace = [FindOne (ByResetToken (param_token req)),
                                Next (Error ''User not found''), Throw TypeError]\<rparr>
                  \<and> trace (getReset env' (req'\<lparr>authenticated := False\<rparr>)
                             (db (postReset env req s)))
                    = [FindOne (ByResetToken (param_token req)),
                       Send 403 (Text ''Password reset token is invalid or has expired.'')])"
proof -
  from postReset_success_cases [OF assms] obtain i u
    where f: "findOne (matches (ByResetToken (param_token req))) s = Some (i, u)"
      and d: "db (postReset env req s)
                = s[i := u\<lparr>password := body_password req, passwordResetToken := None,
                           passwordResetExpires := None\<rparr>]"
    by blast
  let ?s' = "db (postReset env req s)"
  from findOne_SomeD [OF f] have i: "i < length s" by simp
  have c: "passwordResetToken (?s' ! i) = None \<and> passwordResetExpires (?s' ! i) = None"
    using i d by simp
  have n: "postReset env' req' ?s'
             = \<lparr>db = ?s', trace = [FindOne (ByResetToken (param_token req)),
                                   Next (Error ''User not found''), Throw TypeError]\<rparr>
           \<and> trace (getReset env' (req'\<lparr>authenticated := False\<rparr>) ?s')
             = [FindOne (ByResetToken (param_token req)),
                Send 403 (Text ''Password reset token is invalid or has expired.'')]"
    if m: "findOne (matches (ByResetToken (param_token req))) ?s' = None"
      and t: "param_token req' = param_token req"
      and v: "postReset_validate req' = []" and e: "findErr env' = None"
  proof -
    from m t have m': "findOne (matches (ByResetToken (param_token req'))) ?s' = None"
      by simp
    from postReset_no_match(2,3) [OF m', of env'] v e t
    have "db (postReset env' req' ?s') = ?s'"
      and "trace (postReset env' req' ?s')
             = [FindOne (ByResetToken (param_token req)), Next (Error ''User not found''),
                Throw TypeError]"
      by simp_all
    then have p: "postReset env' req' ?s'
             = \<lparr>db = ?s', trace = [FindOne (ByResetToken (param_token req)),
                                   Next (Error ''User not found''), Throw TypeError]\<rparr>"
      by (cases "postReset env' req' ?s'") simp
    have "trace (getReset env' (req'\<lparr>authenticated := False\<rparr>) ?s')
             = [FindOne (ByResetToken (param_token req)),
                Send 403 (Text ''Password reset token is invalid or has expired.'')]"
      using getReset_no_match [of "req'\<lparr>authenticated := False\<rparr>" env' ?s'] e m' t
      by simp
    with p show ?thesis by simp
  qed
  from n have "findOne (matches (ByResetToken (param_token req))) ?s' = None
        \<and> param_token req' = param_token req \<and> postReset_validate req' = []
        \<and> findErr env' = None
      \<longrightarrow> postReset env' req' ?s'
             = \<lparr>db = ?s', trace = [FindOne (ByResetToken (param_token req)),
                                   Next (Error ''User not found''), Throw TypeError]\<rparr>
           \<and> trace (getReset env' (req'\<lparr>authenticated := False\<rparr>) ?s')
             = [FindOne (ByResetToken (param_token req)),
                Send 403 (Text ''Password reset token is invalid or has expired.'')]"
    by (intro impI) (elim conjE)
  with f c show ?thesis
    by (intro exI [of _ i] exI [of _ u] conjI) (elim conjE, assumption)+
qed

theorem postReset_second_call_raises_witness:
  "success \<in> set (trace (postReset (example_env 1525132900000)
        (example_request [] ''hunter2'') pending_store))
   \<and> passwordResetToken (db (postReset (example_env 1525132900000)
        (example_request [] ''hunter2'') pending_store) ! 0) = None
   \<and> passwordResetExpires (db (postReset (example_env 1525132900000)
        (example_request [] ''hunter2'') pending_store) ! 0) = None
   \<and> postReset (example_env 1525133000000) (example_request [] ''hunter3'')
        (db (postReset (example_env 1525132900000)
           (example_request [] ''hunter2'') pending_store))
      = \<lparr>db = db (postReset (example_env 1525132900000)
                 (example_request [] ''hunter2'') pending_store),
         trace = [FindOne (ByResetToken example_token), Next (Error ''User not found''),
                  Throw TypeError]\<rparr>"
proof -
  let ?env = "example_env 1525132900000" and ?env' = "example_env 1525133000000"
  let ?req = "example_request [] ''hunter2''" and ?req' = "example_request [] ''hunter3''"
  let ?s' = "db (postReset ?env ?req pending_store)"
  have h: "success \<in> set (trace (postReset ?env ?req pending_store))"
    by (simp add: pending_store_eq postReset_defs postReset_validate_def example_defs
          example_token_not_less success_def)
  have f: "findOne (matches (ByResetToken (param_token ?req))) pending_store
           = Some (0, pending_store ! 0)"
    by (simp add: pending_store_eq example_defs)
  have m: "findOne (matches (ByResetToken (param_token ?req))) ?s' = None"
    by (simp add: pending_store_eq postReset_defs postReset_validate_def example_defs
          example_token_not_less)
  have t: "param_token ?req' = param_token ?req" and v: "postReset_validate ?req' = []"
    and e: "findErr ?env' = None" and p: "param_token ?req = example_token"
    by (simp_all add: example_defs postReset_validate_def)
  from postReset_second_call_raises [OF h, of ?req' ?env'] f m t v e h
  show ?thesis by (auto simp: p)
qed


text \<open>
  C5. A request for a reset at a valid address that a record carries, with the random
  source, the lookup and the save answering without error: the stored record then carries
  the token, which is the 16 random bytes in hexadecimal, and the expiry, which is the
  clock at the request plus one hour (60 * 60 * 1000 milliseconds), and the response is
  the acknowledgment.
\<close>

theorem forgot_sets_token_and_expiry:
  assumes "isEmail env (body_email req)"
    and "entropy env = Inr f"
    and "findErr env = None"
    and "saveErr env = None"
    and "findOne (matches (ByEmail (normalizeEmail env (body_email req)))) s = Some (i, u)"
  shows "email (db (forgot env req s) ! i) = normalizeEmail env (body_email req)
       \<and> passwordResetToken (db (forgot env req s) ! i) = Some (toHex (map f [0..<16]))
       \<and> passwordResetExpires (db (forgot env req s) ! i) = Some (now env + 60 * 60 * 1000)
       \<and> response (trace (forgot env req s))
           = Some (200, Text (ack (normalizeEmail env (body_email req))))"
proof -
  from findOne_SomeD [OF assms(5)]
  have "i < length s" and "email u = normalizeEmail env (body_email req)" by simp_all
  then show ?thesis
    using assms by (simp add: forgot_defs split: option.splits)
qed

theorem forgot_sets_token_and_expiry_witness:
  "findOne (matches (ByEmail ''bob@example.com'')) [alice, bob] = Some (1, bob)
   \<and> passwordResetToken (db (forgot (example_env 1525132800000)
         (example_request ''bob@example.com'' []) [alice, bob]) ! 1) = Some example_token
   \<and> passwordResetExpires (db (forgot (example_env 1525132800000)
         (example_request ''bob@example.com'' []) [alice, bob]) ! 1) = Some 1525136400000"
proof -
  let ?env = "example_env 1525132800000"
  let ?req = "example_request ''bob@example.com'' []"
  have h1: "isEmail ?env (body_email ?req)" by (simp add: example_defs)
  have h2: "entropy ?env = Inr (\<lambda>i. 0xAB)" by (simp add: example_defs)
  have h3: "findErr ?env = None" by (simp add: example_defs)
  have h4: "saveErr ?env = None" by (simp add: example_defs)
  have h5: "findOne (matches (ByEmail (normalizeEmail ?env (body_email ?req)))) [alice, bob]
            = Some (1, bob)"
    by (simp add: example_defs)
  from forgot_sets_token_and_expiry [OF h1 h2 h3 h4 h5] h5
  show ?thesis by (simp add: example_token_hex) (simp add: example_defs)
qed

text \<open>
  C6. A redemption whose new password has fewer than 4 characters, or whose confirmation
  differs from it: the handler sends the status 400 with the validation errors and does
  nothing else (its trace holds no lookup, save, log-in or mail), and the store, with any
  pending token, is as it was.
\<close>

theorem postReset_invalid_input:
  assumes "length (body_password req) < 4 \<or> body_confirmPassword req \<noteq> body_password req"
  shows "postReset env req s = \<lparr>db = s, trace = [Send 400 (Errors (postReset_validate req))]\<rparr>
       \<and> postReset_validate req \<noteq> []"
proof -
  have "postReset_validate req \<noteq> []"
    using assms by (auto simp: postReset_validate_def)
  then show ?thesis
    by (simp add: postReset_defs)
qed

theorem postReset_invalid_input_witness:
  "length ''abc'' < (4::nat)
   \<and> postReset (example_env 1525132800000) (example_request [] ''abc'')
       [alice\<lparr>passwordResetToken := Some example_token,
              passwordResetExpires := Some 1525136400000\<rparr>]
     = \<lparr>db = [alice\<lparr>passwordResetToken := Some example_token,
                     passwordResetExpires := Some 1525136400000\<rparr>],
        trace = [Send 400 (Errors [\<lparr>param = ''password'',
                   msg = ''Password must be at least 4 characters long.'', val = ''abc''\<rparr>])]\<rparr>"
proof -
  have h: "length (body_password (example_request [] ''abc'')) < 4
           \<or> body_confirmPassword (example_request [] ''abc'')
               \<noteq> body_password (example_request [] ''abc'')"
    by (simp add: example_defs)
  from postReset_invalid_input [OF h]
  show ?thesis by (simp add: postReset_validate_def example_defs)
qed

text \<open>
  C7. In every store that the three operations can reach from a store with no pending
  reset, every record has its reset token and its reset expiry both set or both absent;
  and each of the three operations, run on any store of which that is true, leaves a store
  of which it is true.
\<close>

theorem reset_fields_paired:
  "(reachable s \<longrightarrow> list_all resetFieldsPaired s)
   \<and> (list_all resetFieldsPaired s \<longrightarrow>
        list_all resetFieldsPaired (db (forgot env req s))
        \<and> list_all resetFieldsPaired (db (getReset env req s))
        \<and> list_all resetFieldsPaired (db (postReset env req s)))"
  by (simp add: reachable_paired paired_forgot paired_postReset db_getReset)

theorem reset_fields_paired_witness:
  "reachable (db (forgot (example_env 1525132800000)
                    (example_request ''bob@example.com'' []) [alice, bob]))
   \<and> list_all resetFieldsPaired (db (forgot (example_env 1525132800000)
                    (example_request ''bob@example.com'' []) [alice, bob]))
   \<and> list_all resetFieldsPaired
        (db (postReset (example_env 1525132900000) (example_request [] ''hunter2'')
           (db (forgot (example_env 1525132800000)
                    (example_request ''bob@example.com'' []) [alice, bob]))))"
proof -
  have "list_all noPendingReset [alice, bob]"
    by (simp add: noPendingReset_def example_defs)
  then have r: "reachable (db (forgot (example_env 1525132800000)
                    (example_request ''bob@example.com'' []) [alice, bob]))"
    by (intro reachable.after_forgot reachable.initial)
  from reset_fields_paired [of "db (forgot (example_env 1525132800000)
                    (example_request ''bob@example.com'' []) [alice, bob])"
      "example_env 1525132900000" "example_request [] ''hunter2''"] r
  show ?thesis by simp
qed

text \<open>
  C8. The mail transport fails with an error \<open>e\<close> after the save succeeded, in \<open>forgot\<close>
  and in \<open>postReset\<close>. The store is the one of the same request with a working transport
  (the token stays stored, the password stays changed) and the mail is sent once. The
  response sent is the status 200 with the acknowledgment, respectively the success
  message: the same response as with a working transport. The error goes to \<open>next\<close>
  only afterwards, as the last event of the trace.
\<close>

theorem mail_failure_answered_as_success:
  assumes "mailErr env = Some e" and "message e \<noteq> ''User not found''"
    and "findErr env = None" and "saveErr env = None"
  shows "(isEmail env (body_email req) \<and> entropy env = Inr f
          \<and> findOne (matches (ByEmail (normalizeEmail env (body_email req)))) s = Some (i, u)
          \<longrightarrow> db (forgot env req s) = db (forgot (env\<lparr>mailErr := None\<rparr>) req s)
              \<and> passwordResetToken (db (forgot env req s) ! i) = Some (toHex (map f [0..<16]))
              \<and> length (filter isSendMail (trace (forgot env req s))) = 1
              \<and> response (trace (forgot env req s))
                  = Some (200, Text (ack (normalizeEmail env (body_email req))))
              \<and> response (trace (forgot env req s))
                  = response (trace (forgot (env\<lparr>mailErr := None\<rparr>) req s))
              \<and> last (trace (forgot env req s)) = Next e)
       \<and> (postReset_validate req = [] \<and> loginErr env = None
          \<and> findOne (matches (ByResetToken (param_token req))) s = Some (i, u)
          \<and> \<not> js_less (Some (param_token req)) (now env)
          \<longrightarrow> db (postReset env req s) = db (postReset (env\<lparr>mailErr := None\<rparr>) req s)
              \<and> password (db (postReset env req s) ! i) = body_password req
              \<and> length (filter isSendMail (trace (postReset env req s))) = 1
              \<and> response (trace (postReset env req s))
                  = Some (200, Text ''Success! Your password has been changed.'')
              \<and> response (trace (postReset env req s))
                  = response (trace (postReset (env\<lparr>mailErr := None\<rparr>) req s))
              \<and> last (trace (postReset env req s)) = Next e)"
proof -
  have a: "db (forgot env req s) = db (forgot (env\<lparr>mailErr := None\<rparr>) req s)
              \<and> passwordResetToken (db (forgot env req s) ! i) = Some (toHex (map f [0..<16]))
              \<and> length (filter isSendMail (trace (forgot env req s))) = 1
              \<and> response (trace (forgot env req s))
                  = Some (200, Text (ack (normalizeEmail env (body_email req))))
              \<and> response (trace (forgot env req s))
                  = response (trace (forgot (env\<lparr>mailErr := None\<rparr>) req s))
              \<and> last (trace (forgot env req s)) = Next e"
    if "isEmail env (body_email req)" and "entropy env = Inr f"
      and f: "findOne (matches (ByEmail (normalizeEmail env (body_email req)))) s = Some (i, u)"
  proof -
    from findOne_SomeD [OF f]
    have "i < length s" and "email u = normalizeEmail env (body_email req)" by simp_all
    then show ?thesis
      using assms that by (simp add: forgot_defs)
  qed
  have b: "db (postReset env req s) = db (postReset (env\<lparr>mailErr := None\<rparr>) req s)
              \<and> password (db (postReset env req s) ! i) = body_password req
              \<and> length (filter isSendMail (trace (postReset env req s))) = 1
              \<and> response (trace (postReset env req s))
                  = Some (200, Text ''Success! Your password has been changed.'')
              \<and> response (trace (postReset env req s))
                  = response (trace (postReset (env\<lparr>mailErr := None\<rparr>) req s))
              \<and> last (trace (postReset env req s)) = Next e"
    if "postReset_validate req = []" and "loginErr env = None"
      and f: "findOne (matches (ByResetToken (param_token req))) s = Some (i, u)"
      and "\<not> js_less (Some (param_token req)) (now env)"
  proof -
    from findOne_SomeD [OF f]
    have "i < length s" and "passwordResetToken u = Some (param_token req)" by simp_all
    then show ?thesis
      using assms that by (simp add: postReset_defs)
  qed
  from a b show ?thesis by blast
qed

theorem mail_failure_answered_as_success_witness:
  "mailErr ((example_env 1525132900000)\<lparr>mailErr := Some (Error ''ECONNREFUSED'')\<rparr>)
     = Some (Error ''ECONNREFUSED'')
   \<and> trace (forgot ((example_env 1525132900000)\<lparr>mailErr := Some (Error ''ECONNREFUSED'')\<rparr>)
        (example_request ''alice@example.com'' ''hunter2'') pending_store) ! 4
      = Send 200 (Text ''An e-mail has been sent to alice@example.com with further instructions.'')
   \<and> response (trace (forgot
        ((example_env 1525132900000)\<lparr>mailErr := Some (Error ''ECONNREFUSED'')\<rparr>)
        (example_request ''alice@example.com'' ''hunter2'') pending_store))
      = response (trace (forgot (example_env 1525132900000)
        (example_request ''alice@example.com'' ''hunter2'') pending_store))
   \<and> last (trace (forgot
        ((example_env 1525132900000)\<lparr>mailErr := Some (Error ''ECONNREFUSED'')\<rparr>)
        (example_request ''alice@example.com'' ''hunter2'') pending_store))
      = Next (Error ''ECONNREFUSED'')
   \<and> response (trace (postReset
        ((example_env 1525132900000)\<lparr>mailErr := Some (Error ''ECONNREFUSED'')\<rparr>)
        (example_request ''alice@example.com'' ''hunter2'') pending_store))
      = Some (200, Text ''Success! Your password has been changed.'')
   \<and> last (trace (postReset
        ((example_env 1525132900000)\<lparr>mailErr := Some (Error ''ECONNREFUSED'')\<rparr>)
        (example_request ''alice@example.com'' ''hunter2'') pending_store))
      = Next (Error ''ECONNREFUSED'')"
proof -
  let ?env = "(example_env 1525132900000)\<lparr>mailErr := Some (Error ''ECONNREFUSED'')\<rparr>"
  let ?req = "example_request ''alice@example.com'' ''hunter2''"
  have h1: "mailErr ?env = Some (Error ''ECONNREFUSED'')" by simp
  have h2: "message (Error ''ECONNREFUSED'') \<noteq> ''User not found''" by simp
  have h3: "findErr ?env = None" and h4: "saveErr ?env = None"
    by (simp_all add: example_defs)
  have a: "isEmail ?env (body_email ?req) \<and> entropy ?env = Inr (\<lambda>i. 0xAB)
           \<and> findOne (matches (ByEmail (normalizeEmail ?env (body_email ?req)))) pending_store
               = Some (0, pending_store ! 0)"
    by (simp add: pending_store_eq example_defs)
  have b: "postReset_validate ?req = [] \<and> loginErr ?env = None
           \<and> findOne (matches (ByResetToken (param_token ?req))) pending_store
               = Some (0, pending_store ! 0)
           \<and> \<not> js_less (Some (param_token ?req)) (now ?env)"
    by (simp add: pending_store_eq example_defs postReset_validate_def example_token_not_less)
  have c: "trace (forgot ?env ?req pending_store) ! 4
      = Send 200 (Text ''An e-mail has been sent to alice@example.com with further instructions.'')"
    by (simp add: pending_store_eq example_defs forgot_defs ack_def)
  have d: "(example_env 1525132900000)\<lparr>mailErr := None\<rparr> = example_env 1525132900000"
    by (simp add: example_defs)
  from mail_failure_answered_as_success [OF h1 h2 h3 h4, of ?req "\<lambda>i. 0xAB" pending_store 0
      "pending_store ! 0"] a b
  have "response (trace (forgot ?env ?req pending_store))
          = response (trace (forgot (?env\<lparr>mailErr := None\<rparr>) ?req pending_store))
        \<and> last (trace (forgot ?env ?req pending_store)) = Next (Error ''ECONNREFUSED'')
        \<and> response (trace (postReset ?env ?req pending_store))
          = Some (200, Text ''Success! Your password has been changed.'')
        \<and> last (trace (postReset ?env ?req pending_store)) = Next (Error ''ECONNREFUSED'')"
    by blast
  with c h1 show ?thesis by (simp add: d)
qed

text \<open>
  C9. The 16 bytes of the random source give a token of 32 characters, each a lower-case
  hexadecimal digit, and \<open>forgot\<close> goes on with that token. When the random source
  answers with an error, \<open>forgot\<close> raises a TypeError (line 277 reads \<open>buf.toString\<close> of
  the absent buffer before line 278 can pass the error on): the trace holds no \<open>next\<close>
  with the error of the source, and the store is as it was.
\<close>

theorem forgot_random_source:
  "(randomBytes 16 src = Inr buf \<longrightarrow>
      length buf = 16 \<and> length (toHex buf) = 32
      \<and> set (toHex buf) \<subseteq> set ''0123456789abcdef'')
   \<and> (isEmail env (body_email req) \<and> entropy env = Inr f \<longrightarrow>
        forgot env req s
          = setRandomToken env (normalizeEmail env (body_email req)) (host req)
              (toHex (map f [0..<16])) [RandomBytes 16] s)
   \<and> (isEmail env (body_email req) \<and> entropy env = Inl e \<longrightarrow>
        forgot env req s = \<lparr>db = s, trace = [RandomBytes 16, Throw TypeError]\<rparr>)"
proof -
  have a: "length buf = 16 \<and> length (toHex buf) = 32
           \<and> set (toHex buf) \<subseteq> set ''0123456789abcdef''"
    if "randomBytes 16 src = Inr buf"
  proof -
    from that have "length buf = 16"
      by (auto simp: randomBytes_def split: sum.splits)
    then show ?thesis using set_toHex [of buf] by (simp add: length_toHex)
  qed
  have b: "forgot env req s
          = setRandomToken env (normalizeEmail env (body_email req)) (host req)
              (toHex (map f [0..<16])) [RandomBytes 16] s"
    if "isEmail env (body_email req)" and "entropy env = Inr f"
    using that by (simp add: forgot_def createRandomToken_def randomBytes_def)
  have c: "forgot env req s = \<lparr>db = s, trace = [RandomBytes 16, Throw TypeError]\<rparr>"
    if "isEmail env (body_email req)" and "entropy env = Inl e"
    using that by (simp add: forgot_def createRandomToken_def randomBytes_def)
  from a b c show ?thesis by blast
qed

theorem forgot_random_source_witness:
  "isEmail (example_env 0) ''alice@example.com''
   \<and> forgot ((example_env 0)\<lparr>entropy := Inl (Error ''entropy unavailable'')\<rparr>)
        (example_request ''alice@example.com'' []) [alice]
     = \<lparr>db = [alice], trace = [RandomBytes 16, Throw TypeError]\<rparr>
   \<and> length (toHex (map (\<lambda>i. 0xAB) [0..<16])) = 32"
proof -
  let ?env = "(example_env 0)\<lparr>entropy := Inl (Error ''entropy unavailable'')\<rparr>"
  let ?req = "example_request ''alice@example.com'' []"
  have h1: "isEmail ?env (body_email ?req) \<and> entropy ?env = Inl (Error ''entropy unavailable'')"
    by (simp add: example_defs)
  have h2: "randomBytes 16 (Inr (\<lambda>i. 0xAB)) = Inr (map (\<lambda>i. 0xAB) [0..<16])"
    by (simp add: randomBytes_def)
  from forgot_random_source [of "Inr (\<lambda>i. 0xAB)" "map (\<lambda>i. 0xAB) [0..<16]" ?env ?req
      "\<lambda>i. 0xAB" "[alice]" "Error ''entropy unavailable''"] h1 h2
  show ?thesis by (simp add: example_defs)
qed

text \<open>
  C10. The redemption handler never asks whether the caller has a session: for a caller
  with a session whose token matches a record (the passwords valid, the lookup and the
  save without error) the record's password becomes the new one, the outcome is the one
  of the same request without a session, and the verification handler answers the same
  caller with the status 401.
\<close>

theorem postReset_ignores_session:
  assumes "authenticated req"
    and "4 \<le> length (body_password req)"
    and "body_confirmPassword req = body_password req"
    and "findErr env = None"
    and "saveErr env = None"
    and "findOne (matches (ByResetToken (param_token req))) s = Some (i, u)"
  shows "trace (getReset env req s) = [Send 401 (Text ''You are already logged in.'')]
       \<and> password (db (postReset env req s) ! i) = body_password req
       \<and> postReset env (req\<lparr>authenticated := False\<rparr>) s = postReset env req s"
proof -
  from findOne_SomeD [OF assms(6)] have "i < length s" by simp
  then have "password (db (postReset env req s) ! i) = body_password req"
    using assms by (simp add: postReset_defs postReset_validate_def)
  moreover have "postReset env (req\<lparr>authenticated := False\<rparr>) s = postReset env req s"
    by (simp add: postReset_def postReset_lookup_def postReset_validate_def Let_def
          split: option.splits prod.splits)
  moreover have "trace (getReset env req s) = [Send 401 (Text ''You are already logged in.'')]"
    using assms(1) by (simp add: getReset_defs)
  ultimately show ?thesis by simp
qed

theorem postReset_ignores_session_witness:
  "authenticated ((example_request [] ''hunter2'')\<lparr>authenticated := True\<rparr>)
   \<and> trace (getReset (example_env 1525132900000)
        ((example_request [] ''hunter2'')\<lparr>authenticated := True\<rparr>)
        [alice\<lparr>passwordResetToken := Some example_token,
               passwordResetExpires := Some 1525136400000\<rparr>])
      = [Send 401 (Text ''You are already logged in.'')]
   \<and> password (db (postReset (example_env 1525132900000)
        ((example_request [] ''hunter2'')\<lparr>authenticated := True\<rparr>)
        [alice\<lparr>passwordResetToken := Some example_token,
               passwordResetExpires := Some 1525136400000\<rparr>]) ! 0) = ''hunter2''"
proof -
  let ?env = "example_env 1525132900000"
  let ?req = "(example_request [] ''hunter2'')\<lparr>authenticated := True\<rparr>"
  let ?s = "[alice\<lparr>passwordResetToken := Some example_token,
                   passwordResetExpires := Some 1525136400000\<rparr>]"
  have h1: "authenticated ?req" by simp
  have h2: "4 \<le> length (body_password ?req)" by (simp add: example_defs)
  have h3: "body_confirmPassword ?req = body_password ?req" by (simp add: example_defs)
  have h4: "findErr ?env = None" by (simp add: example_defs)
  have h5: "saveErr ?env = None" by (simp add: example_defs)
  have h6: "findOne (matches (ByResetToken (param_token ?req))) ?s = Some (0, ?s ! 0)"
    by (simp add: example_defs)
  from postReset_ignores_session [OF h1 h2 h3 h4 h5 h6]
  show ?thesis by (simp add: example_defs)
qed

end
